theory Spec2Isabelle
  imports Main
begin

section \<open>ORM event interfaces (lib/sqlalchemy/orm/events.py)\<close>

text \<open>
  The module declares five event classes on top of the event core
  (\<^verbatim>\<open>sqlalchemy.event\<close>) and the mapping framework (\<^verbatim>\<open>sqlalchemy.orm\<close>).
  Python values are an arbitrary type \<open>'v\<close>, equality on \<open>'v\<close> being object identity.
  The state of the world a listener runs in is an arbitrary type \<open>'w\<close>.
\<close>

subsection \<open>Exceptions\<close>

datatype error =
    NotImplementedError string
  | ArgumentError string
  | AttributeError
  | TypeError
  | IndexError
  | Raised string

subsection \<open>Callables\<close>

text \<open>
  A callable receives its positional arguments and its keyword arguments, runs in the
  world and either raises or returns a value.
\<close>

type_synonym ('v, 'w) callable =
  "'v list \<Rightarrow> (string \<times> 'v) list \<Rightarrow> 'w \<Rightarrow> (error + 'v) \<times> 'w"

subsection \<open>The event core\<close>

text \<open>
  Modelled from the spec: \<^verbatim>\<open>event.Events.listen\<close>, the registration entry point of the
  event core, which is not part of this module (the spec: listen "wraps a user callback
  ... before delegating to the host event bus"). A call of it is recorded, in order, with
  the arguments it was given; \<open>call_propagate\<close> is \<open>None\<close> where the call leaves the
  argument out.
\<close>

record ('v, 'w) listen_call =
  call_target :: 'v
  call_identifier :: string
  call_fn :: "('v, 'w) callable"
  call_propagate :: "bool option"

text \<open>
  The registration state: the calls made to the event core, and the dispatch objects whose
  attribute \<^verbatim>\<open>active_history\<close> was set to True.
\<close>

record ('v, 'w) registry =
  listeners :: "('v, 'w) listen_call list"
  history_active :: "'v list"

definition Events_listen ::
  "'v \<Rightarrow> string \<Rightarrow> ('v, 'w) callable \<Rightarrow> bool option \<Rightarrow> ('v, 'w) registry \<Rightarrow> ('v, 'w) registry"
where
  "Events_listen target identifier fn propagate s =
     s\<lparr>listeners := listeners s @
        [\<lparr>call_target = target, call_identifier = identifier, call_fn = fn,
          call_propagate = propagate\<rparr>]\<rparr>"

subsection \<open>The mapping framework\<close>

text \<open>
  What the module imports from the framework, and the attributes and methods of framework
  objects it uses, are the fields of a record. A test \<^verbatim>\<open>isinstance(x, C)\<close> or
  \<^verbatim>\<open>issubclass(x, C)\<close> is the field \<open>isinstance_C\<close> or \<open>issubclass_C\<close>; an attribute
  or method of a target that the framework may not have raises there. \<open>truth\<close> is the
  truth value of an object in a condition.
\<close>

datatype attribute = Function "string list" | NotAFunction

record ('v, 'w) host =
  py_None :: 'v
  isinstance_type :: "'v \<Rightarrow> bool"
  truth :: "'v \<Rightarrow> bool"
  instrumentation_registry :: 'v
  ClassManager :: 'v
  manager_of_class :: "'v \<Rightarrow> 'v"
  Mapper :: 'v
  mapper :: 'v
  class_mapper :: "'v \<Rightarrow> error + 'v"
  ScopedSession :: 'v
  Session :: 'v
  EXT_CONTINUE :: 'v
  isinstance_ClassManager :: "'v \<Rightarrow> bool"
  isinstance_Mapper :: "'v \<Rightarrow> bool"
  isinstance_ScopedSession :: "'v \<Rightarrow> bool"
  isinstance_Session :: "'v \<Rightarrow> bool"
  issubclass_Mapper :: "'v \<Rightarrow> bool"
  issubclass_ScopedSession :: "'v \<Rightarrow> bool"
  issubclass_Session :: "'v \<Rightarrow> bool"
  class_manager :: "'v \<Rightarrow> 'v"
  session_factory :: "'v \<Rightarrow> 'v"
  obj :: "'v \<Rightarrow> 'w \<Rightarrow> (error + 'v) \<times> 'w"
  subclass_managers :: "'v \<Rightarrow> error + 'v list"
  self_and_descendants :: "'v \<Rightarrow> error + 'v list"
  class_attr :: "'v \<Rightarrow> error + 'v"
  key :: "'v \<Rightarrow> error + 'v"
  getitem :: "'v \<Rightarrow> 'v \<Rightarrow> error + 'v"
  dispatch :: "'v \<Rightarrow> error + 'v"
  setattr_active_history :: "'v \<Rightarrow> error + unit"
  MapperEvents_other_attribute :: "string \<Rightarrow> attribute option"

text \<open>
  \<open>subclass_managers h m\<close> is \<^verbatim>\<open>m.subclass_managers(True)\<close>, \<open>getitem h m k\<close> is
  \<^verbatim>\<open>m[k]\<close>, \<open>class_attr h a\<close> is \<^verbatim>\<open>a.class_\<close>, \<open>dispatch h a\<close> is
  \<^verbatim>\<open>a.dispatch\<close>, \<open>setattr_active_history h d\<close> is the assignment
  \<^verbatim>\<open>d.active_history = True\<close>, and \<open>MapperEvents_other_attribute\<close> gives the attributes
  of the class MapperEvents that its body does not define (those inherited from
  \<^verbatim>\<open>event.Events\<close>).
\<close>

subsection \<open>Resolving a target: accept\_with\<close>

definition InstrumentationEvents_accept_with :: "('v, 'w) host \<Rightarrow> 'v \<Rightarrow> 'v" where
  "InstrumentationEvents_accept_with h target =
     (if isinstance_type h target then instrumentation_registry h else py_None h)"




subsection \<open>Running a callable\<close>

definition py_return :: "'a \<Rightarrow> 'w \<Rightarrow> (error + 'a) \<times> 'w" where
  "py_return x w = (Inr x, w)"

definition py_raise :: "error \<Rightarrow> 'w \<Rightarrow> (error + 'a) \<times> 'w" where
  "py_raise e w = (Inl e, w)"

definition py_bind ::
  "('w \<Rightarrow> (error + 'a) \<times> 'w) \<Rightarrow> ('a \<Rightarrow> 'w \<Rightarrow> (error + 'b) \<times> 'w) \<Rightarrow> 'w \<Rightarrow> (error + 'b) \<times> 'w"
where
  "py_bind m f w = (case m w of (Inl e, w') \<Rightarrow> (Inl e, w') | (Inr x, w') \<Rightarrow> f x w')"

text \<open>
  Binding the first named parameter of a Python function: it takes the first positional
  argument, or else the keyword argument of its name; a parameter given twice or not at
  all is a TypeError.
\<close>

definition kw_delete :: "string \<Rightarrow> (string \<times> 'v) list \<Rightarrow> (string \<times> 'v) list" where
  "kw_delete p kw = filter (\<lambda>item. fst item \<noteq> p) kw"

fun bind_parameter ::
  "string \<Rightarrow> 'v list \<Rightarrow> (string \<times> 'v) list \<Rightarrow> error + ('v \<times> 'v list \<times> (string \<times> 'v) list)"
where
  "bind_parameter p (a # args) kw =
     (if p \<in> fst ` set kw then Inl TypeError else Inr (a, args, kw))"
| "bind_parameter p [] kw =
     (case map_of kw p of None \<Rightarrow> Inl TypeError | Some a \<Rightarrow> Inr (a, [], kw_delete p kw))"

text \<open>
  The position \<^verbatim>\<open>xs[i]\<close> refers to: an index below zero is taken from the end of the
  list, and one outside the list is an IndexError.
\<close>

definition py_index :: "'v list \<Rightarrow> int \<Rightarrow> error + nat" where
  "py_index xs i =
     (if 0 \<le> i \<and> i < int (length xs) then Inr (nat i)
      else if i < 0 \<and> - int (length xs) \<le> i then Inr (nat (int (length xs) + i))
      else Inl IndexError)"

fun list_index :: "'a \<Rightarrow> 'a list \<Rightarrow> nat option" where
  "list_index x [] = None"
| "list_index x (y # ys) = (if x = y then Some 0 else map_option Suc (list_index x ys))"

subsection \<open>InstanceEvents.listen\<close>

text \<open>The closure \<^verbatim>\<open>wrap(state, *arg, **kw)\<close>, over \<^verbatim>\<open>orig_fn\<close>.\<close>

definition InstanceEvents_wrap :: "('v, 'w) host \<Rightarrow> ('v, 'w) callable \<Rightarrow> ('v, 'w) callable" where
  "InstanceEvents_wrap h orig_fn args kw =
     (case bind_parameter ''state'' args kw of
        Inl e \<Rightarrow> py_raise e
      | Inr (state, arg, kw') \<Rightarrow>
          py_bind (obj h state) (\<lambda>instance. orig_fn (instance # arg) kw'))"

definition listen_each ::
  "'v list \<Rightarrow> string \<Rightarrow> ('v, 'w) callable \<Rightarrow> ('v, 'w) registry \<Rightarrow> ('v, 'w) registry"
where
  "listen_each targets identifier fn s =
     foldl (\<lambda>s' t. Events_listen t identifier fn (Some True) s') s targets"

definition InstanceEvents_listen ::
  "('v, 'w) host \<Rightarrow> 'v \<Rightarrow> string \<Rightarrow> ('v, 'w) callable \<Rightarrow> bool \<Rightarrow> bool \<Rightarrow> ('v, 'w) registry
     \<Rightarrow> (error + unit) \<times> ('v, 'w) registry"
where
  "InstanceEvents_listen h target identifier fn raw propagate s =
     (let fn' = (if \<not> raw then InstanceEvents_wrap h fn else fn);
          s1 = Events_listen target identifier fn' (Some propagate) s
      in if propagate then
           (case subclass_managers h target of
              Inl e \<Rightarrow> (Inl e, s1)
            | Inr mgrs \<Rightarrow> (Inr (), listen_each mgrs identifier fn' s1))
         else (Inr (), s1))"

subsection \<open>InstrumentationEvents.listen\<close>


subsection \<open>MapperEvents.listen\<close>

text \<open>
  The functions the body of MapperEvents defines, each with the names of its positional
  parameters (what \<^verbatim>\<open>inspect.getargspec\<close> returns first).
\<close>

definition MapperEvents_functions :: "(string \<times> string list) list" where
  "MapperEvents_functions =
     [(''accept_with'', [''cls'', ''target'']),
      (''listen'', [''cls'', ''target'', ''identifier'', ''fn'', ''raw'', ''retval'', ''propagate'']),
      (''on_instrument_class'', [''self'', ''mapper'', ''class_'']),
      (''on_translate_row'', [''self'', ''mapper'', ''context'', ''row'']),
      (''on_create_instance'', [''self'', ''mapper'', ''context'', ''row'', ''class_'']),
      (''on_append_result'', [''self'', ''mapper'', ''context'', ''row'', ''target'', ''result'']),
      (''on_populate_instance'', [''self'', ''mapper'', ''context'', ''row'', ''target'']),
      (''on_before_insert'', [''self'', ''mapper'', ''connection'', ''target'']),
      (''on_after_insert'', [''self'', ''mapper'', ''connection'', ''target'']),
      (''on_before_update'', [''self'', ''mapper'', ''connection'', ''target'']),
      (''on_after_update'', [''self'', ''mapper'', ''connection'', ''target'']),
      (''on_before_delete'', [''self'', ''mapper'', ''connection'', ''target'']),
      (''on_after_delete'', [''self'', ''mapper'', ''connection'', ''target'']),
      (''remove'', [''cls'', ''identifier'', ''target'', ''fn''])]"

definition MapperEvents_getattr :: "('v, 'w) host \<Rightarrow> string \<Rightarrow> error + attribute" where
  "MapperEvents_getattr h identifier =
     (case map_of MapperEvents_functions identifier of
        Some names \<Rightarrow> Inr (Function names)
      | None \<Rightarrow>
          (case MapperEvents_other_attribute h identifier of
             Some a \<Rightarrow> Inr a
           | None \<Rightarrow> Inl AttributeError))"

definition getargspec :: "attribute \<Rightarrow> error + string list" where
  "getargspec meth = (case meth of Function names \<Rightarrow> Inr names | NotAFunction \<Rightarrow> Inl TypeError)"

text \<open>
  The value \<^verbatim>\<open>target_index\<close> is given when raw is false:
  \<^verbatim>\<open>inspect.getargspec(meth)[0].index('target') - 1\<close>, or None on ValueError.
\<close>

definition target_index_of :: "('v, 'w) host \<Rightarrow> string \<Rightarrow> error + int option" where
  "target_index_of h identifier =
     (case MapperEvents_getattr h identifier of
        Inl e \<Rightarrow> Inl e
      | Inr meth \<Rightarrow>
          (case getargspec meth of
             Inl e \<Rightarrow> Inl e
           | Inr names \<Rightarrow>
               (case list_index ''target'' names of
                  None \<Rightarrow> Inr None
                | Some i \<Rightarrow> Inr (Some (int i - 1)))))"

text \<open>
  \<^verbatim>\<open>arg = list(arg); arg[target_index] = arg[target_index].obj()\<close>
\<close>

definition unwrap_target ::
  "('v, 'w) host \<Rightarrow> int \<Rightarrow> 'v list \<Rightarrow> 'w \<Rightarrow> (error + 'v list) \<times> 'w"
where
  "unwrap_target h i arg =
     (case py_index arg i of
        Inl e \<Rightarrow> py_raise e
      | Inr j \<Rightarrow> py_bind (obj h (arg ! j)) (\<lambda>instance. py_return (arg[j := instance])))"

text \<open>
  The closure \<^verbatim>\<open>wrap(*arg, **kw)\<close>, over \<^verbatim>\<open>raw\<close>, \<^verbatim>\<open>retval\<close>, \<^verbatim>\<open>target_index\<close>
  and \<^verbatim>\<open>wrapped_fn\<close>. With raw true, \<^verbatim>\<open>target_index\<close> was never assigned and the
  conjunction does not read it.
\<close>

definition MapperEvents_wrap ::
  "('v, 'w) host \<Rightarrow> bool \<Rightarrow> bool \<Rightarrow> int option \<Rightarrow> ('v, 'w) callable \<Rightarrow> ('v, 'w) callable"
where
  "MapperEvents_wrap h raw retval target_index wrapped_fn arg kw =
     py_bind
       (if \<not> raw \<and> target_index \<noteq> None then unwrap_target h (the target_index) arg
        else py_return arg)
       (\<lambda>arg'.
          if \<not> retval then py_bind (wrapped_fn arg' kw) (\<lambda>r. py_return (EXT_CONTINUE h))
          else wrapped_fn arg' kw)"

definition MapperEvents_register ::
  "('v, 'w) host \<Rightarrow> 'v \<Rightarrow> string \<Rightarrow> ('v, 'w) callable \<Rightarrow> bool \<Rightarrow> ('v, 'w) registry
     \<Rightarrow> (error + unit) \<times> ('v, 'w) registry"
where
  "MapperEvents_register h target identifier fn propagate s =
     (if propagate then
        (case self_and_descendants h target of
           Inl e \<Rightarrow> (Inl e, s)
         | Inr mappers \<Rightarrow> (Inr (), listen_each mappers identifier fn s))
      else (Inr (), Events_listen target identifier fn None s))"

definition MapperEvents_listen ::
  "('v, 'w) host \<Rightarrow> 'v \<Rightarrow> string \<Rightarrow> ('v, 'w) callable \<Rightarrow> bool \<Rightarrow> bool \<Rightarrow> bool
     \<Rightarrow> ('v, 'w) registry \<Rightarrow> (error + unit) \<times> ('v, 'w) registry"
where
  "MapperEvents_listen h target identifier fn raw retval propagate s =
     (if \<not> raw \<or> \<not> retval then
        (case (if \<not> raw then target_index_of h identifier else Inr None) of
           Inl e \<Rightarrow> (Inl e, s)
         | Inr target_index \<Rightarrow>
             MapperEvents_register h target identifier
               (MapperEvents_wrap h raw retval target_index fn) propagate s)
      else MapperEvents_register h target identifier fn propagate s)"

subsection \<open>AttributeEvents.listen\<close>

text \<open>
  The closure \<^verbatim>\<open>wrap(target, value, *arg)\<close>, over \<^verbatim>\<open>raw\<close>, \<^verbatim>\<open>retval\<close> and
  \<^verbatim>\<open>orig_fn\<close>. It has no \<^verbatim>\<open>**kw\<close>: a keyword argument left over is a TypeError.
\<close>

definition AttributeEvents_wrap ::
  "('v, 'w) host \<Rightarrow> bool \<Rightarrow> bool \<Rightarrow> ('v, 'w) callable \<Rightarrow> ('v, 'w) callable"
where
  "AttributeEvents_wrap h raw retval orig_fn args kw =
     (case bind_parameter ''target'' args kw of
        Inl e \<Rightarrow> py_raise e
      | Inr (target, args1, kw1) \<Rightarrow>
          (case bind_parameter ''value'' args1 kw1 of
             Inl e \<Rightarrow> py_raise e
           | Inr (val, arg, kw2) \<Rightarrow>
               if kw2 \<noteq> [] then py_raise TypeError
               else
                 py_bind (if \<not> raw then obj h target else py_return target)
                   (\<lambda>target'.
                      if \<not> retval then
                        py_bind (orig_fn (target' # val # arg) []) (\<lambda>r. py_return val)
                      else orig_fn (target' # val # arg) [])))"

text \<open>
  The loop \<^verbatim>\<open>for mgr in manager.subclass_managers(True)\<close>, registering on
  \<^verbatim>\<open>mgr[target.key]\<close>.
\<close>

fun listen_subclass_attributes ::
  "('v, 'w) host \<Rightarrow> 'v \<Rightarrow> string \<Rightarrow> ('v, 'w) callable \<Rightarrow> 'v list \<Rightarrow> ('v, 'w) registry
     \<Rightarrow> (error + unit) \<times> ('v, 'w) registry"
where
  "listen_subclass_attributes h target identifier fn [] s = (Inr (), s)"
| "listen_subclass_attributes h target identifier fn (mgr # mgrs) s =
     (case key h target of
        Inl e \<Rightarrow> (Inl e, s)
      | Inr k \<Rightarrow>
          (case getitem h mgr k of
             Inl e \<Rightarrow> (Inl e, s)
           | Inr a \<Rightarrow>
               listen_subclass_attributes h target identifier fn mgrs
                 (Events_listen a identifier fn (Some True) s)))"

text \<open>
  The statement \<^verbatim>\<open>target.dispatch.active_history = True\<close>: the target may have no
  \<^verbatim>\<open>dispatch\<close>, and the assignment may be refused.
\<close>

definition assign_active_history ::
  "('v, 'w) host \<Rightarrow> 'v \<Rightarrow> ('v, 'w) registry \<Rightarrow> error + ('v, 'w) registry"
where
  "assign_active_history h target s =
     (case dispatch h target of
        Inl e \<Rightarrow> Inl e
      | Inr d \<Rightarrow>
          (case setattr_active_history h d of
             Inl e \<Rightarrow> Inl e
           | Inr u \<Rightarrow> Inr (s\<lparr>history_active := history_active s @ [d]\<rparr>)))"

definition AttributeEvents_listen ::
  "('v, 'w) host \<Rightarrow> 'v \<Rightarrow> string \<Rightarrow> ('v, 'w) callable \<Rightarrow> bool \<Rightarrow> bool \<Rightarrow> bool \<Rightarrow> bool
     \<Rightarrow> ('v, 'w) registry \<Rightarrow> (error + unit) \<times> ('v, 'w) registry"
where
  "AttributeEvents_listen h target identifier fn active_history raw retval propagate s =
     (case (if active_history then assign_active_history h target s else Inr s) of
        Inl e \<Rightarrow> (Inl e, s)
      | Inr s1 \<Rightarrow>
          (let fn' = (if \<not> raw \<or> \<not> retval then AttributeEvents_wrap h raw retval fn else fn);
               s2 = Events_listen target identifier fn' (Some propagate) s1
           in if propagate then
                (case class_attr h target of
                   Inl e \<Rightarrow> (Inl e, s2)
                 | Inr c \<Rightarrow>
                     (case subclass_managers h (manager_of_class h c) of
                        Inl e \<Rightarrow> (Inl e, s2)
                      | Inr mgrs \<Rightarrow> listen_subclass_attributes h target identifier fn' mgrs s2))
              else (Inr (), s2)))"

subsection \<open>Listener removal\<close>

definition InstrumentationEvents_remove ::
  "string \<Rightarrow> 'v \<Rightarrow> ('v, 'w) callable \<Rightarrow> ('v, 'w) registry \<Rightarrow> (error + unit) \<times> ('v, 'w) registry"
where
  "InstrumentationEvents_remove identifier target fn s =
     (Inl (NotImplementedError ''Removal of instrumentation events not yet implemented''), s)"

definition InstanceEvents_remove ::
  "string \<Rightarrow> 'v \<Rightarrow> ('v, 'w) callable \<Rightarrow> ('v, 'w) registry \<Rightarrow> (error + unit) \<times> ('v, 'w) registry"
where
  "InstanceEvents_remove identifier target fn s =
     (Inl (NotImplementedError ''Removal of instance events not yet implemented''), s)"

definition MapperEvents_remove ::
  "string \<Rightarrow> 'v \<Rightarrow> ('v, 'w) callable \<Rightarrow> ('v, 'w) registry \<Rightarrow> (error + unit) \<times> ('v, 'w) registry"
where
  "MapperEvents_remove identifier target fn s =
     (Inl (NotImplementedError ''Removal of mapper events not yet implemented''), s)"

definition SessionEvents_remove ::
  "string \<Rightarrow> 'v \<Rightarrow> ('v, 'w) callable \<Rightarrow> ('v, 'w) registry \<Rightarrow> (error + unit) \<times> ('v, 'w) registry"
where
  "SessionEvents_remove identifier target fn s =
     (Inl (NotImplementedError ''Removal of session events not yet implemented''), s)"

definition AttributeEvents_remove ::
  "string \<Rightarrow> 'v \<Rightarrow> ('v, 'w) callable \<Rightarrow> ('v, 'w) registry \<Rightarrow> (error + unit) \<times> ('v, 'w) registry"
where
  "AttributeEvents_remove identifier target fn s =
     (Inl (NotImplementedError ''Removal of attribute events not yet implemented''), s)"

datatype event_class =
  InstrumentationEvents | InstanceEvents | MapperEvents | SessionEvents | AttributeEvents

fun remove_of ::
  "event_class \<Rightarrow> string \<Rightarrow> 'v \<Rightarrow> ('v, 'w) callable \<Rightarrow> ('v, 'w) registry
     \<Rightarrow> (error + unit) \<times> ('v, 'w) registry"
where
  "remove_of InstrumentationEvents = InstrumentationEvents_remove"
| "remove_of InstanceEvents = InstanceEvents_remove"
| "remove_of MapperEvents = MapperEvents_remove"
| "remove_of SessionEvents = SessionEvents_remove"
| "remove_of AttributeEvents = AttributeEvents_remove"

fun is_NotImplementedError :: "error + 'a \<Rightarrow> bool" where
  "is_NotImplementedError (Inl (NotImplementedError msg)) = True"
| "is_NotImplementedError r = False"

subsection \<open>Notions used in the statements\<close>

abbreviation Call :: "'v \<Rightarrow> string \<Rightarrow> ('v, 'w) callable \<Rightarrow> bool option \<Rightarrow> ('v, 'w) listen_call" where
  "Call t i f p \<equiv> \<lparr>call_target = t, call_identifier = i, call_fn = f, call_propagate = p\<rparr>"

text \<open>\<open>with_return c fn\<close> is \<open>fn\<close> with its return value replaced by \<open>c\<close>.\<close>

definition with_return :: "'v \<Rightarrow> ('v, 'w) callable \<Rightarrow> ('v, 'w) callable" where
  "with_return c fn arg kw = py_bind (fn arg kw) (\<lambda>r. py_return c)"

text \<open>The calls to the event core made between two registration states.\<close>

definition new_listeners :: "('v, 'w) registry \<Rightarrow> ('v, 'w) registry \<Rightarrow> ('v, 'w) listen_call list" where
  "new_listeners s s' = drop (length (listeners s)) (listeners s')"


subsection \<open>An example framework\<close>

definition example_host :: "(string, string list) host" where
  "example_host =
     \<lparr>py_None = ''None'',
      isinstance_type = (\<lambda>x. x \<in> set [''type'', ''User'', ''Admin'', ''Plain'', ''Mapper'',
                                        ''Session'', ''ScopedSession'', ''ClassManager'']),
      truth = (\<lambda>x. x \<noteq> ''None''),
      instrumentation_registry = ''instrumentation_registry'',
      ClassManager = ''ClassManager'',
      manager_of_class =
        (\<lambda>c. if c = ''User'' then ''manager:User''
             else if c = ''Admin'' then ''manager:Admin'' else ''None''),
      Mapper = ''Mapper'',
      mapper = ''mapper'',
      class_mapper =
        (\<lambda>c. if c = ''User'' then Inr ''mapper:User''
             else if c = ''Admin'' then Inr ''mapper:Admin''
             else Inl (Raised ''UnmappedClassError'')),
      ScopedSession = ''ScopedSession'',
      Session = ''Session'',
      EXT_CONTINUE = ''EXT_CONTINUE'',
      isinstance_ClassManager = (\<lambda>x. x \<in> set [''manager:User'', ''manager:Admin'']),
      isinstance_Mapper = (\<lambda>x. x \<in> set [''mapper:User'', ''mapper:Admin'']),
      isinstance_ScopedSession = (\<lambda>x. x \<in> set [''scoped:Session'', ''scoped:lambda'']),
      isinstance_Session = (\<lambda>x. x = ''session:1''),
      issubclass_Mapper = (\<lambda>x. x = ''Mapper''),
      issubclass_ScopedSession = (\<lambda>x. x = ''ScopedSession''),
      issubclass_Session = (\<lambda>x. x = ''Session''),
      class_manager =
        (\<lambda>m. if m = ''mapper:User'' then ''manager:User'' else ''manager:Admin''),
      session_factory = (\<lambda>x. if x = ''scoped:Session'' then ''Session'' else ''lambda''),
      obj =
        (\<lambda>x w. if x = ''state:u1'' then (Inr ''u1'', w) else (Inl AttributeError, w)),
      subclass_managers =
        (\<lambda>m. if m = ''manager:User'' then Inr [''manager:Admin'']
             else if m = ''manager:Admin'' then Inr [] else Inl AttributeError),
      self_and_descendants =
        (\<lambda>m. if m = ''mapper:User'' then Inr [''mapper:User'', ''mapper:Admin'']
             else if m = ''mapper:Admin'' then Inr [''mapper:Admin''] else Inl AttributeError),
      class_attr = (\<lambda>a. if a = ''User.name'' then Inr ''User'' else Inl AttributeError),
      key = (\<lambda>a. if a = ''User.name'' then Inr ''name'' else Inl AttributeError),
      getitem =
        (\<lambda>m k. if m = ''manager:Admin'' \<and> k = ''name'' then Inr ''Admin.name''
               else Inl (Raised ''KeyError'')),
      dispatch =
        (\<lambda>a. if a = ''User.name'' then Inr ''dispatch:User.name'' else Inl AttributeError),
      setattr_active_history = (\<lambda>d. Inr ()),
      MapperEvents_other_attribute =
        (\<lambda>n. if n = ''dispatch'' then Some NotAFunction else None)\<rparr>"

text \<open>A listener that logs the positional arguments it receives and returns \<open>''seen''\<close>.\<close>

definition example_listener :: "(string, string list) callable" where
  "example_listener arg kw w = (Inr ''seen'', w @ arg)"

definition empty_registry :: "(string, string list) registry" where
  "empty_registry = \<lparr>listeners = [], history_active = []\<rparr>"

section \<open>Theorems\<close>

text \<open>
  C1. For each of the five event classes and for all arguments (identifier, target,
  fn), the remove classmethod raises NotImplementedError, whatever the registration
  state, and leaves the registration state as it was.
\<close>

theorem remove_raises_NotImplementedError:
  "is_NotImplementedError (fst (remove_of c identifier target fn s))
   \<and> snd (remove_of c identifier target fn s) = s"
  by (cases c)
     (simp_all add: InstrumentationEvents_remove_def InstanceEvents_remove_def
        MapperEvents_remove_def SessionEvents_remove_def AttributeEvents_remove_def)

subsection \<open>Calls to the event core\<close>

lemma listeners_Events_listen:
  "listeners (Events_listen t i f p s) = listeners s @ [Call t i f p]"
  by (simp add: Events_listen_def)

lemma listeners_listen_each:
  "listeners (listen_each ts i f s) = listeners s @ map (\<lambda>t. Call t i f (Some True)) ts"
  unfolding listen_each_def
  by (induction ts arbitrary: s) (simp_all add: listeners_Events_listen)

lemma InstanceEvents_listen_propagate:
  assumes "subclass_managers h target = Inr mgrs"
  shows "fst (InstanceEvents_listen h target identifier fn raw True s) = Inr ()
    \<and> listeners (snd (InstanceEvents_listen h target identifier fn raw True s)) =
         listeners s @
           Call target identifier (if raw then fn else InstanceEvents_wrap h fn) (Some True) #
           map (\<lambda>m. Call m identifier (if raw then fn else InstanceEvents_wrap h fn) (Some True)) mgrs"
  using assms
  by (simp add: InstanceEvents_listen_def Let_def listeners_listen_each listeners_Events_listen)

lemma InstanceEvents_listen_target_only:
  shows "fst (InstanceEvents_listen h target identifier fn raw False s) = Inr ()
    \<and> listeners (snd (InstanceEvents_listen h target identifier fn raw False s)) =
         listeners s @
           [Call target identifier (if raw then fn else InstanceEvents_wrap h fn) (Some False)]"
  by (simp add: InstanceEvents_listen_def Let_def listeners_Events_listen)

lemma MapperEvents_listen_propagate:
  assumes "self_and_descendants h target = Inr ms"
      and "raw \<or> target_index_of h identifier = Inr ti"
  shows "fst (MapperEvents_listen h target identifier fn raw retval True s) = Inr ()
    \<and> listeners (snd (MapperEvents_listen h target identifier fn raw retval True s)) =
         listeners s @
           map (\<lambda>m. Call m identifier
                  (if raw \<and> retval then fn
                   else MapperEvents_wrap h raw retval (if raw then None else ti) fn) (Some True)) ms"
  using assms
  by (auto simp add: MapperEvents_listen_def MapperEvents_register_def listeners_listen_each)

lemma MapperEvents_listen_target_only:
  assumes "raw \<or> target_index_of h identifier = Inr ti"
  shows "fst (MapperEvents_listen h target identifier fn raw retval False s) = Inr ()
    \<and> listeners (snd (MapperEvents_listen h target identifier fn raw retval False s)) =
         listeners s @
           [Call target identifier
                  (if raw \<and> retval then fn
                   else MapperEvents_wrap h raw retval (if raw then None else ti) fn) None]"
  using assms
  by (auto simp add: MapperEvents_listen_def MapperEvents_register_def listeners_Events_listen)

lemma listen_subclass_attributes_all:
  assumes "key h target = Inr k"
      and "map (\<lambda>m. getitem h m k) mgrs = map Inr attrs"
  shows "listen_subclass_attributes h target identifier f mgrs s =
         (Inr (), listen_each attrs identifier f s)"
  using assms
proof (induction mgrs arbitrary: attrs s)
  case Nil
  then show ?case by (simp add: listen_each_def)
next
  case (Cons m mgrs)
  then obtain a rest where attrs: "attrs = a # rest" by (cases attrs) auto
  with Cons.prems have m: "getitem h m k = Inr a"
    and rest: "map (\<lambda>m. getitem h m k) mgrs = map Inr rest" by auto
  show ?case
    using Cons.IH [OF Cons.prems(1) rest] Cons.prems(1) m attrs
    by (simp add: listen_each_def)
qed

lemma assign_active_history_succeeds:
  "\<not> active_history \<or> dispatch h target = Inr d \<and> setattr_active_history h d = Inr () \<Longrightarrow>
   (if active_history then assign_active_history h target s else Inr s) =
     Inr (if active_history then s\<lparr>history_active := history_active s @ [d]\<rparr> else s)"
  by (auto simp add: assign_active_history_def)

lemma AttributeEvents_listen_propagate:
  assumes "\<not> active_history \<or> dispatch h target = Inr d \<and> setattr_active_history h d = Inr ()"
      and "class_attr h target = Inr c"
      and "subclass_managers h (manager_of_class h c) = Inr mgrs"
      and "key h target = Inr k"
      and "map (\<lambda>m. getitem h m k) mgrs = map Inr attrs"
  shows "fst (AttributeEvents_listen h target identifier fn active_history raw retval True s) = Inr ()
    \<and> listeners (snd (AttributeEvents_listen h target identifier fn active_history raw retval True s)) =
         listeners s @
           Call target identifier
             (if raw \<and> retval then fn else AttributeEvents_wrap h raw retval fn) (Some True) #
           map (\<lambda>a. Call a identifier
             (if raw \<and> retval then fn else AttributeEvents_wrap h raw retval fn) (Some True)) attrs"
  using assms(2-5)
  by (auto simp add: AttributeEvents_listen_def assign_active_history_succeeds [OF assms(1)]
        Let_def listen_subclass_attributes_all listeners_listen_each listeners_Events_listen)

lemma AttributeEvents_listen_target_only:
  assumes "\<not> active_history \<or> dispatch h target = Inr d \<and> setattr_active_history h d = Inr ()"
  shows "AttributeEvents_listen h target identifier fn active_history raw retval False s =
      (Inr (),
       Events_listen target identifier
         (if raw \<and> retval then fn else AttributeEvents_wrap h raw retval fn) (Some False)
         (if active_history then s\<lparr>history_active := history_active s @ [d]\<rparr> else s))"
  by (auto simp add: AttributeEvents_listen_def assign_active_history_succeeds [OF assms]
        Let_def)


text \<open>
  C5. With propagate true, listen repeats the registration for the subclasses:
  InstanceEvents.listen registers the function (wrapped unless raw) on the target and then
  on every manager of \<^verbatim>\<open>target.subclass_managers(True)\<close>; MapperEvents.listen registers
  it on every mapper of \<^verbatim>\<open>target.self_and_descendants\<close> and makes no other call;
  AttributeEvents.listen registers it on the target and then on the attribute of the same key
  of every subclass manager. With propagate false each of them makes one call to the event
  core, on the target. The lookups of the framework are assumed to return, and so is the
  statement \<^verbatim>\<open>target.dispatch.active_history = True\<close> that AttributeEvents.listen
  runs first when active\_history is true.
\<close>

theorem propagate_registers_on_subclasses:
  "(subclass_managers h target = Inr mgrs \<longrightarrow>
      fst (InstanceEvents_listen h target identifier fn raw True s) = Inr ()
      \<and> listeners (snd (InstanceEvents_listen h target identifier fn raw True s)) =
          listeners s @
            Call target identifier (if raw then fn else InstanceEvents_wrap h fn) (Some True) #
            map (\<lambda>m. Call m identifier (if raw then fn else InstanceEvents_wrap h fn) (Some True))
              mgrs)
   \<and> (fst (InstanceEvents_listen h target identifier fn raw False s) = Inr ()
      \<and> listeners (snd (InstanceEvents_listen h target identifier fn raw False s)) =
          listeners s @
            [Call target identifier (if raw then fn else InstanceEvents_wrap h fn) (Some False)])
   \<and> (self_and_descendants h target = Inr ms \<and> (raw \<or> target_index_of h identifier = Inr ti) \<longrightarrow>
      fst (MapperEvents_listen h target identifier fn raw retval True s) = Inr ()
      \<and> listeners (snd (MapperEvents_listen h target identifier fn raw retval True s)) =
          listeners s @
            map (\<lambda>m. Call m identifier
                   (if raw \<and> retval then fn
                    else MapperEvents_wrap h raw retval (if raw then None else ti) fn) (Some True))
              ms)
   \<and> (raw \<or> target_index_of h identifier = Inr ti \<longrightarrow>
      fst (MapperEvents_listen h target identifier fn raw retval False s) = Inr ()
      \<and> listeners (snd (MapperEvents_listen h target identifier fn raw retval False s)) =
          listeners s @
            [Call target identifier
               (if raw \<and> retval then fn
                else MapperEvents_wrap h raw retval (if raw then None else ti) fn) None])
   \<and> ((\<not> active_history \<or> dispatch h target = Inr d \<and> setattr_active_history h d = Inr ())
        \<and> class_attr h target = Inr c \<and> subclass_managers h (manager_of_class h c) = Inr mgrs
        \<and> key h target = Inr k \<and> map (\<lambda>m. getitem h m k) mgrs = map Inr attrs \<longrightarrow>
      fst (AttributeEvents_listen h target identifier fn active_history raw retval True s) = Inr ()
      \<and> listeners (snd (AttributeEvents_listen h target identifier fn active_history raw retval True s)) =
          listeners s @
            Call target identifier
              (if raw \<and> retval then fn else AttributeEvents_wrap h raw retval fn) (Some True) #
            map (\<lambda>a. Call a identifier
              (if raw \<and> retval then fn else AttributeEvents_wrap h raw retval fn) (Some True)) attrs)
   \<and> (\<not> active_history \<or> dispatch h target = Inr d \<and> setattr_active_history h d = Inr () \<longrightarrow>
      fst (AttributeEvents_listen h target identifier fn active_history raw retval False s) = Inr ()
      \<and> listeners (snd (AttributeEvents_listen h target identifier fn active_history raw retval False s)) =
          listeners s @
            [Call target identifier
              (if raw \<and> retval then fn else AttributeEvents_wrap h raw retval fn) (Some False)])"
  using InstanceEvents_listen_propagate [of h target mgrs "identifier" fn raw s]
    InstanceEvents_listen_target_only [of h target "identifier" fn raw s]
    MapperEvents_listen_propagate [of h target ms raw "identifier" ti fn retval s]
    MapperEvents_listen_target_only [of raw h "identifier" ti target fn retval s]
    AttributeEvents_listen_propagate [of active_history h target d c mgrs k attrs "identifier" fn
      raw retval s]
    AttributeEvents_listen_target_only [of active_history h target d "identifier" fn raw retval s]
  by (simp add: listeners_Events_listen)

theorem propagate_registers_on_subclasses_witness:
  "subclass_managers example_host ''manager:User'' = Inr [''manager:Admin'']
   \<and> map call_target (listeners (snd (InstanceEvents_listen example_host ''manager:User''
        ''on_load'' example_listener True True empty_registry))) = [''manager:User'', ''manager:Admin'']
   \<and> self_and_descendants example_host ''mapper:User'' = Inr [''mapper:User'', ''mapper:Admin'']
   \<and> map call_target (listeners (snd (MapperEvents_listen example_host ''mapper:User''
        ''on_before_insert'' example_listener True True True empty_registry))) =
        [''mapper:User'', ''mapper:Admin'']
   \<and> map call_target (listeners (snd (MapperEvents_listen example_host ''mapper:User''
        ''on_before_insert'' example_listener True True False empty_registry))) = [''mapper:User'']
   \<and> class_attr example_host ''User.name'' = Inr ''User''
   \<and> map call_target (listeners (snd (AttributeEvents_listen example_host ''User.name''
        ''on_set'' example_listener False True True True empty_registry))) =
        [''User.name'', ''Admin.name'']
   \<and> dispatch example_host ''User.name'' = Inr ''dispatch:User.name''
   \<and> map call_target (listeners (snd (AttributeEvents_listen example_host ''User.name''
        ''on_set'' example_listener True True True True empty_registry))) =
        [''User.name'', ''Admin.name'']
   \<and> map call_target (listeners (snd (AttributeEvents_listen example_host ''User.name''
        ''on_set'' example_listener True True True False empty_registry))) = [''User.name'']"
proof -
  have a: "subclass_managers example_host ''manager:User'' = Inr [''manager:Admin'']"
    by (simp add: example_host_def)
  have b: "self_and_descendants example_host ''mapper:User'' = Inr [''mapper:User'', ''mapper:Admin'']"
    by (simp add: example_host_def)
  have c: "class_attr example_host ''User.name'' = Inr ''User''"
    by (simp add: example_host_def)
  have d: "subclass_managers example_host (manager_of_class example_host ''User'') = Inr [''manager:Admin'']"
    by (simp add: example_host_def)
  have e: "key example_host ''User.name'' = Inr ''name''"
    by (simp add: example_host_def)
  have f: "map (\<lambda>m. getitem example_host m ''name'') [''manager:Admin''] = map Inr [''Admin.name'']"
    by (simp add: example_host_def)
  have g: "dispatch example_host ''User.name'' = Inr ''dispatch:User.name''"
    "setattr_active_history example_host ''dispatch:User.name'' = Inr ()"
    by (simp_all add: example_host_def)
  note i = propagate_registers_on_subclasses [of example_host "''manager:User''"
      "[''manager:Admin'']" "''on_load''" example_listener True empty_registry]
  note m = propagate_registers_on_subclasses [of example_host "''mapper:User''" _
      "''on_before_insert''" example_listener True empty_registry
      "[''mapper:User'', ''mapper:Admin'']" None True]
  note at = propagate_registers_on_subclasses [of example_host "''User.name''"
      "[''manager:Admin'']" "''on_set''" example_listener True empty_registry _ _ True
      False _ "''User''" "''name''" "[''Admin.name'']"]
  note ah = propagate_registers_on_subclasses [of example_host "''User.name''"
      "[''manager:Admin'']" "''on_set''" example_listener True empty_registry _ _ True
      True "''dispatch:User.name''" "''User''" "''name''" "[''Admin.name'']"]
  show ?thesis
    using i m at ah a b c d e f g
    by (simp add: empty_registry_def)
qed

subsection \<open>The wrappers\<close>

lemma py_bind_return [simp]: "py_bind (py_return x) f = f x"
  by (rule ext) (simp add: py_bind_def py_return_def)

lemma py_bind_raise [simp]: "py_bind (py_raise e) f = py_raise e"
  by (rule ext) (simp add: py_bind_def py_raise_def)

lemma with_return_twice:
  "py_bind (with_return c fn arg kw) (\<lambda>r. py_return d) = py_bind (fn arg kw) (\<lambda>r. py_return d)"
  by (rule ext) (simp add: with_return_def py_bind_def py_return_def split: prod.splits sum.splits)

lemma MapperEvents_wrap_discards:
  "MapperEvents_wrap h raw False ti (with_return c fn) = MapperEvents_wrap h raw False ti fn"
  by (intro ext) (simp add: MapperEvents_wrap_def with_return_twice)

lemma MapperEvents_wrap_returns_EXT_CONTINUE:
  "fst (MapperEvents_wrap h raw False ti fn arg kw w) = Inr r \<Longrightarrow> r = EXT_CONTINUE h"
  by (auto simp add: MapperEvents_wrap_def py_bind_def py_return_def split: prod.splits sum.splits if_splits)

lemma MapperEvents_wrap_forward:
  "raw \<or> ti = None \<Longrightarrow>
   MapperEvents_wrap h raw retval ti fn arg kw =
     (if retval then fn arg kw else py_bind (fn arg kw) (\<lambda>r. py_return (EXT_CONTINUE h)))"
  by (auto simp add: MapperEvents_wrap_def)

lemma MapperEvents_wrap_unwrap:
  "py_index arg i = Inr j \<Longrightarrow>
   MapperEvents_wrap h False retval (Some i) fn arg kw =
     py_bind (obj h (arg ! j))
       (\<lambda>instance. if retval then fn (arg[j := instance]) kw
          else py_bind (fn (arg[j := instance]) kw) (\<lambda>r. py_return (EXT_CONTINUE h)))"
  by (rule ext)
     (simp add: MapperEvents_wrap_def unwrap_target_def py_bind_def py_return_def
        split: prod.splits sum.splits)

lemma InstanceEvents_wrap_unwrap:
  "bind_parameter ''state'' args kw = Inr (state, arg, kw') \<Longrightarrow>
   InstanceEvents_wrap h fn args kw = py_bind (obj h state) (\<lambda>instance. fn (instance # arg) kw')"
  by (simp add: InstanceEvents_wrap_def)

lemma AttributeEvents_wrap_bound:
  "bind_parameter ''target'' args kw = Inr (target, args1, kw1) \<Longrightarrow>
   bind_parameter ''value'' args1 kw1 = Inr (val, arg, []) \<Longrightarrow>
   AttributeEvents_wrap h raw retval fn args kw =
     py_bind (if raw then py_return target else obj h target)
       (\<lambda>target'. if retval then fn (target' # val # arg) []
          else py_bind (fn (target' # val # arg) []) (\<lambda>r. py_return val))"
  by (simp add: AttributeEvents_wrap_def)

lemma AttributeEvents_wrap_discards:
  "AttributeEvents_wrap h raw False (with_return c fn) = AttributeEvents_wrap h raw False fn"
  by (intro ext)
     (simp add: AttributeEvents_wrap_def with_return_twice split: sum.splits prod.splits)

lemma AttributeEvents_wrap_returns_value:
  "fst (AttributeEvents_wrap h raw False fn args kw w) = Inr r \<Longrightarrow>
   \<exists>target args1 kw1 arg.
     bind_parameter ''target'' args kw = Inr (target, args1, kw1)
     \<and> bind_parameter ''value'' args1 kw1 = Inr (r, arg, [])"
  by (auto simp add: AttributeEvents_wrap_def py_bind_def py_return_def py_raise_def
        split: prod.splits sum.splits if_splits)

subsection \<open>What listen registers\<close>

lemma new_listeners_same: "new_listeners s s = []"
  by (simp add: new_listeners_def)

lemma new_listeners_append: "listeners s' = listeners s @ cs \<Longrightarrow> new_listeners s s' = cs"
  by (simp add: new_listeners_def)

lemma new_listeners_Events_listen:
  "new_listeners s (Events_listen t i f p s) = [Call t i f p]"
  by (simp add: new_listeners_append listeners_Events_listen)

lemma new_listeners_listen_each:
  "new_listeners s (listen_each ts i f s) = map (\<lambda>t. Call t i f (Some True)) ts"
  by (simp add: new_listeners_append listeners_listen_each)

lemma listen_subclass_attributes_calls:
  "\<exists>cs. listeners (snd (listen_subclass_attributes h target identifier f mgrs s)) = listeners s @ cs
        \<and> (\<forall>c\<in>set cs. call_fn c = f)"
proof (induction mgrs arbitrary: s)
  case Nil
  then show ?case by simp
next
  case (Cons m mgrs)
  show ?case
  proof (cases "key h target")
    case (Inl e)
    then show ?thesis by simp
  next
    case (Inr k)
    show ?thesis
    proof (cases "getitem h m k")
      case (Inl e)
      with Inr show ?thesis by simp
    next
      case inner: (Inr a)
      obtain cs where cs:
        "listeners (snd (listen_subclass_attributes h target identifier f mgrs
            (Events_listen a identifier f (Some True) s))) =
          listeners (Events_listen a identifier f (Some True) s) @ cs"
        "\<forall>c\<in>set cs. call_fn c = f"
        using Cons.IH by blast
      have "listeners (snd (listen_subclass_attributes h target identifier f (m # mgrs) s)) =
          listeners s @ (Call a identifier f (Some True) # cs)"
        using cs(1) Inr inner by (simp add: listeners_Events_listen)
      moreover have "\<forall>c\<in>set (Call a identifier f (Some True) # cs). call_fn c = f"
        using cs(2) by simp
      ultimately show ?thesis by blast
    qed
  qed
qed

lemma InstanceEvents_listen_registers:
  "\<forall>c\<in>set (new_listeners s (snd (InstanceEvents_listen h target identifier fn raw propagate s))).
     call_fn c = (if raw then fn else InstanceEvents_wrap h fn)"
  by (cases "subclass_managers h target")
     (auto simp add: InstanceEvents_listen_def Let_def new_listeners_append
        listeners_Events_listen listeners_listen_each)

lemma MapperEvents_register_registers:
  "\<forall>c\<in>set (new_listeners s (snd (MapperEvents_register h target identifier f propagate s))).
     call_fn c = f"
  by (cases "self_and_descendants h target")
     (auto simp add: MapperEvents_register_def new_listeners_same new_listeners_Events_listen
        new_listeners_listen_each)

lemma MapperEvents_listen_registers:
  "raw \<or> target_index_of h identifier = Inr ti \<Longrightarrow>
   \<forall>c\<in>set (new_listeners s (snd (MapperEvents_listen h target identifier fn raw retval propagate s))).
     call_fn c = (if raw \<and> retval then fn
                  else MapperEvents_wrap h raw retval (if raw then None else ti) fn)"
  using MapperEvents_register_registers [of s h target "identifier" _ propagate]
  by (auto simp add: MapperEvents_listen_def)

lemma assign_active_history_listeners:
  "(if active_history then assign_active_history h target s else Inr s) = Inr s1 \<Longrightarrow>
   listeners s1 = listeners s"
  by (auto simp add: assign_active_history_def split: if_splits sum.splits)

lemma AttributeEvents_listen_registers:
  "\<forall>c\<in>set (new_listeners s
       (snd (AttributeEvents_listen h target identifier fn active_history raw retval propagate s))).
     call_fn c = (if raw \<and> retval then fn else AttributeEvents_wrap h raw retval fn)"
proof (cases "if active_history then assign_active_history h target s else Inr s")
  case (Inl e)
  then have "AttributeEvents_listen h target identifier fn active_history raw retval propagate s =
      (Inl e, s)"
    by (simp add: AttributeEvents_listen_def)
  then show ?thesis
    by (simp add: new_listeners_same)
next
  case assigned: (Inr s1)
  let ?f = "if raw \<and> retval then fn else AttributeEvents_wrap h raw retval fn"
  let ?s2 = "Events_listen target identifier ?f (Some propagate) s1"
  have s2: "listeners ?s2 = listeners s @ [Call target identifier ?f (Some propagate)]"
    using assign_active_history_listeners [OF assigned] by (simp add: listeners_Events_listen)
  have "\<exists>cs. listeners (snd (AttributeEvents_listen h target identifier fn active_history raw retval
            propagate s)) = listeners ?s2 @ cs \<and> (\<forall>c\<in>set cs. call_fn c = ?f)"
  proof (cases propagate)
    case False
    then show ?thesis using assigned by (simp add: AttributeEvents_listen_def Let_def)
  next
    case True
    show ?thesis
    proof (cases "class_attr h target")
      case (Inl e)
      with True assigned show ?thesis by (simp add: AttributeEvents_listen_def Let_def)
    next
      case (Inr c)
      show ?thesis
      proof (cases "subclass_managers h (manager_of_class h c)")
        case (Inl e)
        with True Inr assigned show ?thesis by (simp add: AttributeEvents_listen_def Let_def)
      next
        case mgrs: (Inr mgrs)
        have "snd (AttributeEvents_listen h target identifier fn active_history raw retval
            propagate s) = snd (listen_subclass_attributes h target identifier ?f mgrs ?s2)"
          using True Inr mgrs assigned by (simp add: AttributeEvents_listen_def Let_def)
        then show ?thesis
          using listen_subclass_attributes_calls [of h target "identifier" ?f mgrs ?s2]
          by simp
      qed
    qed
  qed
  then obtain cs where
    "listeners (snd (AttributeEvents_listen h target identifier fn active_history raw retval
        propagate s)) = listeners s @ (Call target identifier ?f (Some propagate) # cs)"
    "\<forall>c\<in>set cs. call_fn c = ?f"
    using s2 by auto
  then show ?thesis
    by (simp add: new_listeners_append)
qed

subsection \<open>The position of the target argument\<close>

lemma list_index_None: "list_index x ys = None \<longleftrightarrow> x \<notin> set ys"
  by (induction ys) auto

lemma list_index_Some: "list_index x ys = Some k \<Longrightarrow> k < length ys \<and> ys ! k = x"
  by (induction ys arbitrary: k) (auto split: if_splits)

lemma list_index_mem: "list_index x ys = Some k \<Longrightarrow> x \<in> set ys"
  using list_index_None [of x ys] by auto

lemma target_index_of_None:
  "target_index_of h identifier = Inr None \<longleftrightarrow>
     (\<exists>names. MapperEvents_getattr h identifier = Inr (Function names) \<and> ''target'' \<notin> set names)"
  by (auto simp add: target_index_of_def getargspec_def list_index_None
        split: sum.splits attribute.splits option.splits dest: list_index_mem)

lemma target_index_of_Some:
  "target_index_of h identifier = Inr (Some i) \<Longrightarrow>
     \<exists>names. MapperEvents_getattr h identifier = Inr (Function names) \<and> ''target'' \<in> set names"
  by (auto simp add: target_index_of_def getargspec_def
        split: sum.splits attribute.splits option.splits dest: list_index_mem)

lemma target_index_of_body:
  "map_of MapperEvents_functions identifier = Some names \<Longrightarrow>
   target_index_of h identifier =
     Inr (case list_index ''target'' names of None \<Rightarrow> None | Some k \<Rightarrow> Some (int k - 1))"
  by (simp add: target_index_of_def MapperEvents_getattr_def getargspec_def split: option.splits)

lemma target_index_of_plain_hooks:
  "target_index_of h ''on_instrument_class'' = Inr None"
  "target_index_of h ''on_translate_row'' = Inr None"
  "target_index_of h ''on_create_instance'' = Inr None"
  by (simp_all add: target_index_of_def MapperEvents_getattr_def getargspec_def
        MapperEvents_functions_def)

lemma target_index_of_target_hooks:
  "target_index_of h ''on_append_result'' = Inr (Some 3)"
  "target_index_of h ''on_populate_instance'' = Inr (Some 3)"
  "target_index_of h ''on_before_insert'' = Inr (Some 2)"
  "target_index_of h ''on_after_insert'' = Inr (Some 2)"
  "target_index_of h ''on_before_update'' = Inr (Some 2)"
  "target_index_of h ''on_after_update'' = Inr (Some 2)"
  "target_index_of h ''on_before_delete'' = Inr (Some 2)"
  "target_index_of h ''on_after_delete'' = Inr (Some 2)"
  by (simp_all add: target_index_of_def MapperEvents_getattr_def getargspec_def
        MapperEvents_functions_def)

lemma first_parameter_not_target:
  "(name, names) \<in> set MapperEvents_functions \<Longrightarrow> \<exists>first params. names = first # params \<and> first \<noteq> ''target''"
  by (auto simp add: MapperEvents_functions_def)

lemma target_index_position:
  assumes "target_index_of h identifier = Inr (Some i)"
      and "map_of MapperEvents_functions identifier = Some (first # params)"
  shows "0 \<le> i \<and> nat i < length params \<and> params ! nat i = ''target''"
proof -
  from assms(2) have "(identifier, first # params) \<in> set MapperEvents_functions"
    by (rule map_of_SomeD)
  then have first: "first \<noteq> ''target''"
    using first_parameter_not_target by fastforce
  from assms obtain k where k: "list_index ''target'' (first # params) = Some k" "i = int k - 1"
    by (auto simp add: target_index_of_body split: option.splits)
  from k(1) first obtain k' where k': "k = Suc k'" "list_index ''target'' params = Some k'"
    by (auto split: if_splits)
  from list_index_Some [OF k'(2)] k(2) k'(1) show ?thesis by simp
qed


subsection \<open>Claims about the wrappers\<close>

text \<open>
  C9. In MapperEvents.listen with raw false, \<^verbatim>\<open>target_index\<close> is None exactly when the
  function the identifier names has no parameter called target, and is a position only when
  it has one. Of the functions of the class body, the hooks on\_instrument\_class,
  on\_translate\_row and on\_create\_instance are the ones without it: for them the wrapper
  is registered with \<^verbatim>\<open>target_index\<close> None and passes every argument on to the
  listener as it received it, although raw is false.
\<close>

theorem hooks_without_target_forward_unchanged:
  "target_index_of h ''on_instrument_class'' = Inr None
   \<and> target_index_of h ''on_translate_row'' = Inr None
   \<and> target_index_of h ''on_create_instance'' = Inr None
   \<and> filter (\<lambda>name. target_index_of h name = Inr None) (map fst MapperEvents_functions) =
       [''on_instrument_class'', ''on_translate_row'', ''on_create_instance'']
   \<and> (target_index_of h identifier = Inr None \<longleftrightarrow>
        (\<exists>names. MapperEvents_getattr h identifier = Inr (Function names)
                  \<and> ''target'' \<notin> set names))
   \<and> (target_index_of h identifier = Inr (Some i) \<longrightarrow>
        (\<exists>names. MapperEvents_getattr h identifier = Inr (Function names)
                  \<and> ''target'' \<in> set names))
   \<and> (target_index_of h identifier = Inr None \<longrightarrow>
        MapperEvents_listen h target identifier fn False retval False s =
          (Inr (), Events_listen target identifier (MapperEvents_wrap h False retval None fn) None s))
   \<and> MapperEvents_wrap h False retval None fn arg kw =
        (if retval then fn arg kw
         else py_bind (fn arg kw) (\<lambda>r. py_return (EXT_CONTINUE h)))"
proof -
  have filtered: "filter (\<lambda>name. target_index_of h name = Inr None) (map fst MapperEvents_functions) =
       [''on_instrument_class'', ''on_translate_row'', ''on_create_instance'']"
    by (simp add: target_index_of_def MapperEvents_getattr_def getargspec_def
        MapperEvents_functions_def)
  have listen: "target_index_of h identifier = Inr None \<longrightarrow>
        MapperEvents_listen h target identifier fn False retval False s =
          (Inr (), Events_listen target identifier (MapperEvents_wrap h False retval None fn) None s)"
    by (simp add: MapperEvents_listen_def MapperEvents_register_def)
  show ?thesis
    using target_index_of_plain_hooks [of h] filtered listen
      target_index_of_None [of h "identifier"] target_index_of_Some [of h "identifier" i]
      MapperEvents_wrap_forward [of False None h retval fn arg kw]
    by blast
qed

theorem hooks_without_target_forward_unchanged_witness:
  "target_index_of example_host ''on_translate_row'' = Inr None
   \<and> call_fn (hd (listeners (snd (MapperEvents_listen example_host ''mapper:User''
        ''on_translate_row'' example_listener False True False empty_registry))))
        [''mapper:User'', ''context'', ''state:u1''] [] []
      = (Inr ''seen'', [''mapper:User'', ''context'', ''state:u1''])
   \<and> target_index_of example_host ''on_before_insert'' = Inr (Some 2)
   \<and> (\<exists>names. MapperEvents_getattr example_host ''on_before_insert'' = Inr (Function names)
          \<and> ''target'' \<in> set names)"
proof -
  have a: "target_index_of example_host ''on_before_insert'' = Inr (Some 2)"
    by (rule target_index_of_target_hooks)
  show ?thesis
    using hooks_without_target_forward_unchanged [of example_host "''on_translate_row''" _
        "''mapper:User''" example_listener True empty_registry
        "[''mapper:User'', ''context'', ''state:u1'']" "[]"]
      hooks_without_target_forward_unchanged [of example_host "''on_before_insert''" 2] a
    by (simp add: Events_listen_def empty_registry_def example_listener_def)
qed

text \<open>
  C2. MapperEvents.listen with retval false registers, on every target, the wrapper
  around the listener and not the listener. Whenever the wrapper returns, it returns
  \<^verbatim>\<open>EXT_CONTINUE\<close>; replacing the value the listener returns by any other value leaves
  the wrapper the same function; and the wrapper does call the listener: on the arguments it
  received when nothing is unwrapped, on the arguments with the target replaced by its
  instance otherwise.
\<close>

theorem mapper_listener_without_retval:
  "(raw \<or> target_index_of h identifier = Inr ti \<longrightarrow>
      (\<forall>c\<in>set (new_listeners s
            (snd (MapperEvents_listen h target identifier fn raw False propagate s))).
         call_fn c = MapperEvents_wrap h raw False (if raw then None else ti) fn)
      \<and> MapperEvents_listen h target identifier fn raw False False s =
          (Inr (), Events_listen target identifier
             (MapperEvents_wrap h raw False (if raw then None else ti) fn) None s))
   \<and> (fst (MapperEvents_wrap h raw False ti fn arg kw w) = Inr r \<longrightarrow> r = EXT_CONTINUE h)
   \<and> MapperEvents_wrap h raw False ti (with_return c fn) = MapperEvents_wrap h raw False ti fn
   \<and> (raw \<or> ti = None \<longrightarrow>
        MapperEvents_wrap h raw False ti fn arg kw =
          py_bind (fn arg kw) (\<lambda>r. py_return (EXT_CONTINUE h)))
   \<and> (py_index arg i = Inr j \<longrightarrow>
        MapperEvents_wrap h False False (Some i) fn arg kw =
          py_bind (obj h (arg ! j))
            (\<lambda>instance. py_bind (fn (arg[j := instance]) kw) (\<lambda>r. py_return (EXT_CONTINUE h))))"
proof -
  have listen: "raw \<or> target_index_of h identifier = Inr ti \<longrightarrow>
      MapperEvents_listen h target identifier fn raw False False s =
          (Inr (), Events_listen target identifier
             (MapperEvents_wrap h raw False (if raw then None else ti) fn) None s)"
    by (auto simp add: MapperEvents_listen_def MapperEvents_register_def)
  show ?thesis
    using listen
      MapperEvents_listen_registers [of raw h "identifier" ti s target fn False propagate]
      MapperEvents_wrap_returns_EXT_CONTINUE [of h raw ti fn arg kw w r]
      MapperEvents_wrap_discards [of h raw ti c fn]
      MapperEvents_wrap_forward [of raw ti h False fn arg kw]
      MapperEvents_wrap_unwrap [of arg i j h False fn kw]
    by simp
qed

theorem mapper_listener_without_retval_witness:
  "target_index_of example_host ''on_before_insert'' = Inr (Some 2)
   \<and> map (\<lambda>c. call_fn c [''mapper:User'', ''connection'', ''state:u1''] [] [])
       (new_listeners empty_registry
          (snd (MapperEvents_listen example_host ''mapper:User'' ''on_before_insert''
             example_listener False False False empty_registry)))
     = [(Inr ''EXT_CONTINUE'', [''mapper:User'', ''connection'', ''u1''])]
   \<and> py_index [''mapper:User'', ''connection'', ''state:u1''] 2 = Inr 2
   \<and> MapperEvents_wrap example_host True False None example_listener
        [''mapper:User'', ''connection'', ''state:u1''] [] []
     = (Inr ''EXT_CONTINUE'', [''mapper:User'', ''connection'', ''state:u1''])"
proof -
  have a: "target_index_of example_host ''on_before_insert'' = Inr (Some 2)"
    by (rule target_index_of_target_hooks)
  have b: "py_index [''mapper:User'', ''connection'', ''state:u1''] 2 = Inr 2"
    by (simp add: py_index_def)
  have c: "fst (MapperEvents_wrap example_host True False None example_listener
        [''mapper:User'', ''connection'', ''state:u1''] [] []) = Inr ''EXT_CONTINUE''"
    by (simp add: MapperEvents_wrap_def example_listener_def py_bind_def py_return_def
        example_host_def)
  show ?thesis
    using mapper_listener_without_retval [of False example_host "''on_before_insert''" "Some 2"
        empty_registry "''mapper:User''" example_listener False
        "[''mapper:User'', ''connection'', ''state:u1'']" "[]" "[]" "''EXT_CONTINUE''" _ 2 2]
      mapper_listener_without_retval [of True example_host "''on_before_insert''" None
        empty_registry "''mapper:User''" example_listener False
        "[''mapper:User'', ''connection'', ''state:u1'']" "[]" "[]" "''EXT_CONTINUE''" _ 2 2]
      a b c
    by (simp add: new_listeners_Events_listen example_listener_def py_bind_def py_return_def
        example_host_def)
qed

text \<open>
  C10. With raw and retval both true, MapperEvents.listen and AttributeEvents.listen
  register the listener itself: every call they make to the event core carries the function
  they were given, and without propagate (and without active\_history) the registration is
  the single call to the event core on the target. The same holds of InstanceEvents.listen
  with raw true.
\<close>

theorem raw_retval_registers_fn_itself:
  "(\<forall>c\<in>set (new_listeners s
         (snd (MapperEvents_listen h target identifier fn True True propagate s))).
      call_fn c = fn)
   \<and> MapperEvents_listen h target identifier fn True True False s =
       (Inr (), Events_listen target identifier fn None s)
   \<and> (\<forall>c\<in>set (new_listeners s
         (snd (AttributeEvents_listen h target identifier fn active_history True True propagate s))).
      call_fn c = fn)
   \<and> AttributeEvents_listen h target identifier fn False True True False s =
       (Inr (), Events_listen target identifier fn (Some False) s)
   \<and> (\<forall>c\<in>set (new_listeners s
         (snd (InstanceEvents_listen h target identifier fn True propagate s))).
      call_fn c = fn)
   \<and> InstanceEvents_listen h target identifier fn True False s =
       (Inr (), Events_listen target identifier fn (Some False) s)"
proof -
  have m: "MapperEvents_listen h target identifier fn True True False s =
       (Inr (), Events_listen target identifier fn None s)"
    by (simp add: MapperEvents_listen_def MapperEvents_register_def)
  have a: "AttributeEvents_listen h target identifier fn False True True False s =
       (Inr (), Events_listen target identifier fn (Some False) s)"
    by (simp add: AttributeEvents_listen_def)
  have i: "InstanceEvents_listen h target identifier fn True False s =
       (Inr (), Events_listen target identifier fn (Some False) s)"
    by (simp add: InstanceEvents_listen_def)
  show ?thesis
    using m a i
      MapperEvents_listen_registers [of True h "identifier" None s target fn True propagate]
      AttributeEvents_listen_registers [of s h target "identifier" fn active_history True True propagate]
      InstanceEvents_listen_registers [of s h target "identifier" fn True propagate]
    by simp
qed

theorem raw_retval_registers_fn_itself_witness:
  "map (\<lambda>c. (call_target c, call_fn c [''a'', ''b''] [] []))
     (new_listeners empty_registry
        (snd (MapperEvents_listen example_host ''mapper:User'' ''on_before_insert''
           example_listener True True True empty_registry)))
     = [(''mapper:User'', example_listener [''a'', ''b''] [] []),
        (''mapper:Admin'', example_listener [''a'', ''b''] [] [])]
   \<and> map (\<lambda>c. (call_target c, call_fn c [''a'', ''b''] [] []))
     (new_listeners empty_registry
        (snd (AttributeEvents_listen example_host ''User.name'' ''on_set''
           example_listener False True True True empty_registry)))
     = [(''User.name'', example_listener [''a'', ''b''] [] []),
        (''Admin.name'', example_listener [''a'', ''b''] [] [])]
   \<and> map (\<lambda>c. (call_target c, call_fn c [''a'', ''b''] [] []))
     (new_listeners empty_registry
        (snd (InstanceEvents_listen example_host ''manager:User'' ''on_load''
           example_listener True True empty_registry)))
     = [(''manager:User'', example_listener [''a'', ''b''] [] []),
        (''manager:Admin'', example_listener [''a'', ''b''] [] [])]"
proof -
  have m: "map call_target (new_listeners empty_registry
        (snd (MapperEvents_listen example_host ''mapper:User'' ''on_before_insert''
           example_listener True True True empty_registry))) = [''mapper:User'', ''mapper:Admin'']"
    by (simp add: MapperEvents_listen_def MapperEvents_register_def example_host_def
        new_listeners_listen_each)
  have a: "map call_target (new_listeners empty_registry
        (snd (AttributeEvents_listen example_host ''User.name'' ''on_set''
           example_listener False True True True empty_registry))) = [''User.name'', ''Admin.name'']"
    by (simp add: AttributeEvents_listen_def example_host_def new_listeners_def
        Events_listen_def empty_registry_def)
  have i: "map call_target (new_listeners empty_registry
        (snd (InstanceEvents_listen example_host ''manager:User'' ''on_load''
           example_listener True True empty_registry))) = [''manager:User'', ''manager:Admin'']"
    by (simp add: InstanceEvents_listen_def example_host_def new_listeners_def listen_each_def
        Events_listen_def empty_registry_def)
  note t = raw_retval_registers_fn_itself [of empty_registry example_host _ _ example_listener True False]
  have "\<And>cs ts. map call_target cs = ts \<Longrightarrow> \<forall>c\<in>set cs. call_fn c = example_listener \<Longrightarrow>
      map (\<lambda>c. (call_target c, call_fn c [''a'', ''b''] [] [])) cs =
      map (\<lambda>t. (t, example_listener [''a'', ''b''] [] [])) ts"
    by auto
  from this [OF m] this [OF a] this [OF i]
    t [of "''mapper:User''" "''on_before_insert''"]
    t [of "''User.name''" "''on_set''"]
    t [of "''manager:User''" "''on_load''"]
  show ?thesis by simp
qed

text \<open>
  C3. With raw false, the wrapper that InstanceEvents.listen, MapperEvents.listen and
  AttributeEvents.listen register calls \<^verbatim>\<open>obj()\<close> on the state argument and gives the
  listener the instance in its place: the first argument for InstanceEvents and
  AttributeEvents, the argument at \<^verbatim>\<open>target_index\<close> for MapperEvents, which for a
  function of the class body is the position of its parameter target among the arguments of
  the call. With raw true the listener receives the argument as it came: InstanceEvents
  registers the listener itself, and the wrappers of MapperEvents and AttributeEvents pass
  the arguments on without a call to \<^verbatim>\<open>obj()\<close>. Each listen does register that
  callable: without propagate (and, for AttributeEvents, without active\_history) its whole
  effect is the one call to the event core that carries it.
\<close>

theorem raw_decides_unwrapping:
  "(\<forall>c\<in>set (new_listeners s (snd (InstanceEvents_listen h target identifier fn raw propagate s))).
      call_fn c = (if raw then fn else InstanceEvents_wrap h fn))
   \<and> (bind_parameter ''state'' args kw = Inr (state, arg, kw') \<longrightarrow>
        InstanceEvents_wrap h fn args kw =
          py_bind (obj h state) (\<lambda>instance. fn (instance # arg) kw'))
   \<and> (raw \<or> target_index_of h identifier = Inr ti \<longrightarrow>
        (\<forall>c\<in>set (new_listeners s
              (snd (MapperEvents_listen h target identifier fn raw retval propagate s))).
           call_fn c = (if raw \<and> retval then fn
                        else MapperEvents_wrap h raw retval (if raw then None else ti) fn)))
   \<and> (py_index arg i = Inr j \<longrightarrow>
        MapperEvents_wrap h False retval (Some i) fn arg kw =
          py_bind (obj h (arg ! j))
            (\<lambda>instance. if retval then fn (arg[j := instance]) kw
               else py_bind (fn (arg[j := instance]) kw) (\<lambda>r. py_return (EXT_CONTINUE h))))
   \<and> (target_index_of h identifier = Inr (Some i)
        \<and> map_of MapperEvents_functions identifier = Some (first # params) \<longrightarrow>
        0 \<le> i \<and> nat i < length params \<and> params ! nat i = ''target'')
   \<and> MapperEvents_wrap h True retval ti fn arg kw =
        (if retval then fn arg kw
         else py_bind (fn arg kw) (\<lambda>r. py_return (EXT_CONTINUE h)))
   \<and> (\<forall>c\<in>set (new_listeners s
          (snd (AttributeEvents_listen h target identifier fn active_history raw retval propagate s))).
        call_fn c = (if raw \<and> retval then fn else AttributeEvents_wrap h raw retval fn))
   \<and> (bind_parameter ''target'' args kw = Inr (tgt, args1, kw1)
        \<and> bind_parameter ''value'' args1 kw1 = Inr (val, arg, []) \<longrightarrow>
        AttributeEvents_wrap h raw retval fn args kw =
          py_bind (if raw then py_return tgt else obj h tgt)
            (\<lambda>target'. if retval then fn (target' # val # arg) []
               else py_bind (fn (target' # val # arg) []) (\<lambda>r. py_return val)))
   \<and> InstanceEvents_listen h target identifier fn raw False s =
        (Inr (), Events_listen target identifier
           (if raw then fn else InstanceEvents_wrap h fn) (Some False) s)
   \<and> (raw \<or> target_index_of h identifier = Inr ti \<longrightarrow>
        MapperEvents_listen h target identifier fn raw retval False s =
          (Inr (), Events_listen target identifier
             (if raw \<and> retval then fn
              else MapperEvents_wrap h raw retval (if raw then None else ti) fn) None s))
   \<and> AttributeEvents_listen h target identifier fn False raw retval False s =
        (Inr (), Events_listen target identifier
           (if raw \<and> retval then fn else AttributeEvents_wrap h raw retval fn) (Some False) s)"
proof -
  have instance_listen: "InstanceEvents_listen h target identifier fn raw False s =
        (Inr (), Events_listen target identifier
           (if raw then fn else InstanceEvents_wrap h fn) (Some False) s)"
    by (simp add: InstanceEvents_listen_def)
  have mapper_listen: "raw \<or> target_index_of h identifier = Inr ti \<longrightarrow>
        MapperEvents_listen h target identifier fn raw retval False s =
          (Inr (), Events_listen target identifier
             (if raw \<and> retval then fn
              else MapperEvents_wrap h raw retval (if raw then None else ti) fn) None s)"
    by (auto simp add: MapperEvents_listen_def MapperEvents_register_def)
  have attribute_listen: "AttributeEvents_listen h target identifier fn False raw retval False s =
        (Inr (), Events_listen target identifier
           (if raw \<and> retval then fn else AttributeEvents_wrap h raw retval fn) (Some False) s)"
    using AttributeEvents_listen_target_only [of False h target _ "identifier" fn raw retval s]
    by simp
  show ?thesis
  using instance_listen mapper_listen attribute_listen
    InstanceEvents_listen_registers [of s h target "identifier" fn raw propagate]
    InstanceEvents_wrap_unwrap [of args kw state arg kw' h fn]
    MapperEvents_listen_registers [of raw h "identifier" ti s target fn retval propagate]
    MapperEvents_wrap_unwrap [of arg i j h retval fn kw]
    target_index_position [of h "identifier" i first params]
    MapperEvents_wrap_forward [of True ti h retval fn arg kw]
    AttributeEvents_listen_registers [of s h target "identifier" fn active_history raw retval propagate]
    AttributeEvents_wrap_bound [of args kw tgt args1 kw1 val arg h raw retval fn]
  by simp
qed

theorem raw_decides_unwrapping_witness:
  "InstanceEvents_wrap example_host example_listener [''state:u1'', ''x''] [] [] =
     (Inr ''seen'', [''u1'', ''x''])
   \<and> map (\<lambda>c. call_fn c [''mapper:User'', ''connection'', ''state:u1''] [] [])
       (new_listeners empty_registry
          (snd (MapperEvents_listen example_host ''mapper:User'' ''on_before_insert''
             example_listener False True False empty_registry)))
     = [(Inr ''seen'', [''mapper:User'', ''connection'', ''u1''])]
   \<and> [''mapper'', ''connection'', ''target''] ! nat 2 = ''target''
   \<and> MapperEvents_wrap example_host True True None example_listener
        [''mapper:User'', ''connection'', ''state:u1''] [] []
     = (Inr ''seen'', [''mapper:User'', ''connection'', ''state:u1''])
   \<and> AttributeEvents_wrap example_host False True example_listener
        [''state:u1'', ''value'', ''initiator''] [] []
     = (Inr ''seen'', [''u1'', ''value'', ''initiator''])
   \<and> AttributeEvents_wrap example_host True False example_listener
        [''state:u1'', ''value'', ''initiator''] [] []
     = (Inr ''value'', [''state:u1'', ''value'', ''initiator''])
   \<and> map (\<lambda>c. call_fn c [''state:u1'', ''x''] [] [])
       (new_listeners empty_registry
          (snd (InstanceEvents_listen example_host ''manager:User'' ''on_load''
             example_listener False False empty_registry)))
     = [(Inr ''seen'', [''u1'', ''x''])]
   \<and> map (\<lambda>c. call_fn c [''state:u1'', ''x''] [] [])
       (new_listeners empty_registry
          (snd (InstanceEvents_listen example_host ''manager:User'' ''on_load''
             example_listener True False empty_registry)))
     = [(Inr ''seen'', [''state:u1'', ''x''])]
   \<and> map (\<lambda>c. call_fn c [''state:u1'', ''value'', ''initiator''] [] [])
       (new_listeners empty_registry
          (snd (AttributeEvents_listen example_host ''User.name'' ''on_set''
             example_listener False False True False empty_registry)))
     = [(Inr ''seen'', [''u1'', ''value'', ''initiator''])]
   \<and> map (\<lambda>c. call_fn c [''state:u1'', ''value'', ''initiator''] [] [])
       (new_listeners empty_registry
          (snd (AttributeEvents_listen example_host ''User.name'' ''on_set''
             example_listener False True False False empty_registry)))
     = [(Inr ''value'', [''state:u1'', ''value'', ''initiator''])]"
proof -
  let ?margs = "[''mapper:User'', ''connection'', ''state:u1'']"
  let ?aargs = "[''state:u1'', ''value'', ''initiator'']"
  have a: "bind_parameter ''state'' [''state:u1'', ''x''] [] = Inr (''state:u1'', [''x''], [])"
    by simp
  have b: "target_index_of example_host ''on_before_insert'' = Inr (Some 2)"
    by (rule target_index_of_target_hooks)
  have c: "py_index ?margs 2 = Inr 2"
    by (simp add: py_index_def)
  have d: "map_of MapperEvents_functions ''on_before_insert'' =
      Some (''self'' # [''mapper'', ''connection'', ''target''])"
    by (simp add: MapperEvents_functions_def)
  have e: "bind_parameter ''target'' ?aargs [] = Inr (''state:u1'', [''value'', ''initiator''], [])"
    "bind_parameter ''value'' [''value'', ''initiator''] [] = Inr (''value'', [''initiator''], [])"
    by simp_all
  note inst = raw_decides_unwrapping [of empty_registry example_host "''manager:User''"
      "''on_load''" example_listener False False "[''state:u1'', ''x'']" "[]" "''state:u1''"
      "[''x'']" "[]"]
  note mapr = raw_decides_unwrapping [of empty_registry example_host "''mapper:User''"
      "''on_before_insert''" example_listener False False _ "[]" _ ?margs _ "Some 2" True 2 2
      "''self''" "[''mapper'', ''connection'', ''target'']"]
  note mapraw = raw_decides_unwrapping [of empty_registry example_host "''mapper:User''"
      "''on_before_insert''" example_listener True False _ "[]" _ ?margs _ None True]
  note attr = raw_decides_unwrapping [of empty_registry example_host "''User.name''"
      "''on_set''" example_listener False False ?aargs "[]" _ "[''initiator'']" _ _ True _ _ _ _
      False "''state:u1''" "[''value'', ''initiator'']" "[]" "''value''"]
  note attraw = raw_decides_unwrapping [of empty_registry example_host "''User.name''"
      "''on_set''" example_listener True False ?aargs "[]" _ "[''initiator'']" _ _ False _ _ _ _
      False "''state:u1''" "[''value'', ''initiator'']" "[]" "''value''"]
  note instraw = raw_decides_unwrapping [of empty_registry example_host "''manager:User''"
      "''on_load''" example_listener True False]
  have f: "MapperEvents_listen example_host ''mapper:User'' ''on_before_insert''
             example_listener False True False empty_registry =
           (Inr (), Events_listen ''mapper:User'' ''on_before_insert''
              (MapperEvents_wrap example_host False True (Some 2) example_listener) None
              empty_registry)"
    using mapr b by simp
  have li: "InstanceEvents_listen example_host ''manager:User'' ''on_load''
             example_listener False False empty_registry =
           (Inr (), Events_listen ''manager:User'' ''on_load''
              (InstanceEvents_wrap example_host example_listener) (Some False) empty_registry)"
    using inst by simp
  have liraw: "InstanceEvents_listen example_host ''manager:User'' ''on_load''
             example_listener True False empty_registry =
           (Inr (), Events_listen ''manager:User'' ''on_load'' example_listener (Some False)
              empty_registry)"
    using instraw by simp
  have la: "AttributeEvents_listen example_host ''User.name'' ''on_set''
             example_listener False False True False empty_registry =
           (Inr (), Events_listen ''User.name'' ''on_set''
              (AttributeEvents_wrap example_host False True example_listener) (Some False)
              empty_registry)"
    using attr by simp
  have laraw: "AttributeEvents_listen example_host ''User.name'' ''on_set''
             example_listener False True False False empty_registry =
           (Inr (), Events_listen ''User.name'' ''on_set''
              (AttributeEvents_wrap example_host True False example_listener) (Some False)
              empty_registry)"
    using attraw by simp
  have g: "obj example_host ''state:u1'' = py_return ''u1''"
    by (rule ext) (simp add: example_host_def py_return_def)
  have w1: "InstanceEvents_wrap example_host example_listener [''state:u1'', ''x''] [] =
      py_bind (obj example_host ''state:u1'') (\<lambda>instance. example_listener (instance # [''x'']) [])"
    using inst a by simp
  have w2: "\<forall>c\<in>set (new_listeners empty_registry
          (snd (MapperEvents_listen example_host ''mapper:User'' ''on_before_insert''
             example_listener False True False empty_registry))).
        call_fn c = MapperEvents_wrap example_host False True (Some 2) example_listener"
    using mapr b by simp
  have w3: "MapperEvents_wrap example_host False True (Some 2) example_listener ?margs [] =
      py_bind (obj example_host (?margs ! 2)) (\<lambda>instance. example_listener (?margs[2 := instance]) [])"
    using mapr c by simp
  have w4: "[''mapper'', ''connection'', ''target''] ! nat 2 = ''target''"
    using mapr b d by simp
  have w5: "MapperEvents_wrap example_host True True None example_listener ?margs [] =
      example_listener ?margs []"
    using mapraw by simp
  have w6: "AttributeEvents_wrap example_host False True example_listener ?aargs [] =
      py_bind (obj example_host ''state:u1'')
        (\<lambda>target'. example_listener (target' # ''value'' # [''initiator'']) [])"
    using attr e by simp
  have w7: "AttributeEvents_wrap example_host True False example_listener ?aargs [] =
      py_bind (py_return ''state:u1'')
        (\<lambda>target'. py_bind (example_listener (target' # ''value'' # [''initiator'']) [])
           (\<lambda>r. py_return ''value''))"
    using attraw e by simp
  show ?thesis
    using w2 w4
    by (simp add: w1 w3 w5 w6 w7 f li liraw la laraw g new_listeners_Events_listen
        example_listener_def py_bind_def py_return_def)
qed

text \<open>
  C4. AttributeEvents.listen registers the wrapper unless raw and retval are both true.
  With retval false the wrapper calls the listener and returns the value argument it
  received: whenever it returns, its result is the argument bound to value, and replacing
  what the listener returns by any other value leaves the wrapper the same function. With
  retval true the wrapper returns what the listener returns.
\<close>

theorem attribute_listener_value:
  "(\<forall>c\<in>set (new_listeners s
        (snd (AttributeEvents_listen h target identifier fn active_history raw retval propagate s))).
      call_fn c = (if raw \<and> retval then fn else AttributeEvents_wrap h raw retval fn))
   \<and> (bind_parameter ''target'' args kw = Inr (tgt, args1, kw1)
        \<and> bind_parameter ''value'' args1 kw1 = Inr (val, arg, []) \<longrightarrow>
        AttributeEvents_wrap h raw False fn args kw =
          py_bind (if raw then py_return tgt else obj h tgt)
            (\<lambda>target'. py_bind (fn (target' # val # arg) []) (\<lambda>r. py_return val))
        \<and> AttributeEvents_wrap h raw True fn args kw =
          py_bind (if raw then py_return tgt else obj h tgt)
            (\<lambda>target'. fn (target' # val # arg) []))
   \<and> (fst (AttributeEvents_wrap h raw False fn args kw w) = Inr r \<longrightarrow>
        (\<exists>tgt args1 kw1 arg.
           bind_parameter ''target'' args kw = Inr (tgt, args1, kw1)
           \<and> bind_parameter ''value'' args1 kw1 = Inr (r, arg, [])))
   \<and> AttributeEvents_wrap h raw False (with_return c fn) = AttributeEvents_wrap h raw False fn"
  using AttributeEvents_listen_registers [of s h target "identifier" fn active_history raw retval propagate]
    AttributeEvents_wrap_bound [of args kw tgt args1 kw1 val arg h raw False fn]
    AttributeEvents_wrap_bound [of args kw tgt args1 kw1 val arg h raw True fn]
    AttributeEvents_wrap_returns_value [of h raw fn args kw w r]
    AttributeEvents_wrap_discards [of h raw c fn]
  by simp

theorem attribute_listener_value_witness:
  "map (\<lambda>c. call_fn c [''state:u1'', ''value'', ''initiator''] [] [])
       (new_listeners empty_registry
          (snd (AttributeEvents_listen example_host ''User.name'' ''on_append''
             example_listener False False False False empty_registry)))
     = [(Inr ''value'', [''u1'', ''value'', ''initiator''])]
   \<and> AttributeEvents_wrap example_host False True example_listener
        [''state:u1'', ''value'', ''initiator''] [] []
     = (Inr ''seen'', [''u1'', ''value'', ''initiator''])
   \<and> (\<exists>tgt args1 kw1 arg.
         bind_parameter ''target'' [''state:u1'', ''value'', ''initiator''] [] = Inr (tgt, args1, kw1)
         \<and> bind_parameter ''value'' args1 kw1 = Inr (''value'', arg, []))"
proof -
  let ?aargs = "[''state:u1'', ''value'', ''initiator'']"
  have e: "bind_parameter ''target'' ?aargs [] = Inr (''state:u1'', [''value'', ''initiator''], [])"
    "bind_parameter ''value'' [''value'', ''initiator''] [] = Inr (''value'', [''initiator''], [])"
    by simp_all
  have f: "AttributeEvents_listen example_host ''User.name'' ''on_append''
             example_listener False False False False empty_registry =
           (Inr (), Events_listen ''User.name'' ''on_append''
              (AttributeEvents_wrap example_host False False example_listener) (Some False)
              empty_registry)"
    by (simp add: AttributeEvents_listen_def)
  have g: "fst (AttributeEvents_wrap example_host False False example_listener ?aargs [] []) =
      Inr ''value''"
    by (simp add: AttributeEvents_wrap_def example_listener_def py_bind_def py_return_def
        example_host_def)
  show ?thesis
    using attribute_listener_value [of empty_registry example_host "''User.name''" "''on_append''"
        example_listener False False False False ?aargs "[]" "''state:u1''"
        "[''value'', ''initiator'']" "[]" "''value''" "[''initiator'']" "[]" "''value''"]
      e f g
    by (simp add: new_listeners_Events_listen example_listener_def py_bind_def py_return_def
        example_host_def)
qed

subsection \<open>Where errors come from\<close>


















subsection \<open>Claims about accept\_with, errors and the class bodies\<close>

text \<open>
  C6. InstrumentationEvents.accept\_with returns the instrumentation registry for every
  target that is an instance of \<^verbatim>\<open>type\<close> (\<^verbatim>\<open>type\<close> itself is one), and None for
  every other target, which includes every target that is not a class; it has no other
  result.
\<close>

theorem accept_with_of_a_class:
  "(isinstance_type h target \<longrightarrow>
      InstrumentationEvents_accept_with h target = instrumentation_registry h)
   \<and> (\<not> isinstance_type h target \<longrightarrow> InstrumentationEvents_accept_with h target = py_None h)
   \<and> (InstrumentationEvents_accept_with h target = instrumentation_registry h
      \<or> InstrumentationEvents_accept_with h target = py_None h)"
  by (simp add: InstrumentationEvents_accept_with_def)

theorem accept_with_of_a_class_witness:
  "isinstance_type example_host ''User''
   \<and> InstrumentationEvents_accept_with example_host ''User'' = ''instrumentation_registry''
   \<and> isinstance_type example_host ''type''
   \<and> InstrumentationEvents_accept_with example_host ''type'' = ''instrumentation_registry''
   \<and> \<not> isinstance_type example_host ''u1''
   \<and> InstrumentationEvents_accept_with example_host ''u1'' = ''None''"
proof -
  have a: "isinstance_type example_host ''User''" "isinstance_type example_host ''type''"
    "\<not> isinstance_type example_host ''u1''"
    "instrumentation_registry example_host = ''instrumentation_registry''"
    "py_None example_host = ''None''"
    by (simp_all add: example_host_def)
  show ?thesis
    using accept_with_of_a_class [of example_host "''User''"]
      accept_with_of_a_class [of example_host "''type''"]
      accept_with_of_a_class [of example_host "''u1''"] a
    by simp
qed







end
